theory Spec2Isabelle
  imports Main
begin

section \<open>Schema metadata (packages/metadata)\<close>

text \<open>
  The type tag stored in an attribute. The declared union of the metadata package has
  the four primitive tags and the three pairs \<open>["enum", _]\<close>, \<open>["interface", _]\<close>,
  \<open>["array", _]\<close>; the inspector stores the display name (\<open>tsName\<close>) of the enum or
  composite type in the second slot, and it stores one more pair by a cast,
  \<open>[UNRESOLVED_UDT, udt]\<close>, whose second slot is the catalog's \<open>udt\<close> (a string or
  \<open>null\<close>, here \<open>None\<close>).

  Ordinal positions and sort orders are JavaScript numbers that the code stores and
  never computes with; they are integers here. Strings are lists of characters, and
  the code takes them apart at ASCII suffixes and prefixes only.
\<close>

datatype TsType =
    TBoolean
  | TNumber
  | TString
  | TDate
  | TEnum string
  | TInterface string
  | TArray TsType
  | UNRESOLVED_UDT "string option"

record AttributeData =
  attr_name :: string
  attr_order :: int
  nullable :: bool
  tsType :: TsType

record FieldData =
  field_name :: string
  field_order :: int

record EnumData =
  enum_name :: string
  enum_tsName :: string
  enum_fields :: "FieldData list"

record TypeData =
  type_name :: string
  type_tsName :: string
  attributes :: "AttributeData list"

record TableData =
  table_name :: string
  table_tsName :: string
  columns :: "AttributeData list"

record FuncData =
  func_name :: string
  parameters :: "AttributeData list"
  returnType :: TsType

record SchemaData =
  tables :: "TableData list"
  types :: "TypeData list"
  enums :: "EnumData list"
  funcs :: "FuncData list"

text \<open>A thrown JavaScript \<open>Error\<close>, carrying its message.\<close>

datatype error = Error string

section \<open>Phase 1: deduction of a type tag from catalog names (packages/db-inspector)\<close>

record UdtOptions =
  string :: "string list"
  number :: "string list"

text \<open>
  The three name tests are written \<open>s && list.includes(s)\<close>: the result is truthy
  only for a string that is neither \<open>null\<close> nor empty and that the list holds.
\<close>

definition isNumberType :: "string option \<Rightarrow> bool" where
  "isNumberType s =
     (case s of None \<Rightarrow> False
      | Some v \<Rightarrow> v \<noteq> [] \<and>
          v \<in> set [''int2'', ''int4'', ''int8'', ''bigint'', ''money'', ''numeric''])"

definition isStringType :: "string option \<Rightarrow> bool" where
  "isStringType s =
     (case s of None \<Rightarrow> False
      | Some v \<Rightarrow> v \<noteq> [] \<and>
          v \<in> set [''text'', ''text_not_blank'', ''uuid'', ''citext''])"

definition isKnownDateType :: "string option \<Rightarrow> bool" where
  "isKnownDateType s =
     (case s of None \<Rightarrow> False
      | Some v \<Rightarrow> v \<noteq> [] \<and>
          v \<in> set [''timestamp'', ''timestamptz'', ''timestamp without time zone'',
                    ''timestamp with time zone''])"

text \<open>
  \<open>udt && list.includes(udt)\<close>, the guard on the underlying name in the two allow-list
  tests: \<open>null\<close> and the empty string are falsy, so neither is looked up.
\<close>

definition udt_included :: "string option \<Rightarrow> string list \<Rightarrow> bool" where
  "udt_included udt allow =
     (case udt of None \<Rightarrow> False | Some u \<Rightarrow> u \<noteq> [] \<and> u \<in> set allow)"

function deduceType :: "string \<Rightarrow> string option \<Rightarrow> UdtOptions \<Rightarrow> TsType option" where
  "deduceType type udt udts =
     (if type = ''boolean'' \<or> udt = Some ''boolean'' then Some TBoolean
      else if isNumberType (Some type) \<or> isNumberType udt \<or>
              type \<in> set (number udts) \<or> udt_included udt (number udts)
        then Some TNumber
      else if isStringType (Some type) \<or> isStringType udt \<or>
              type \<in> set (string udts) \<or> udt_included udt (string udts)
        then Some TString
      else if isKnownDateType (Some type) \<or> isKnownDateType udt then Some TDate
      else if type = ''USER-DEFINED'' then Some (UNRESOLVED_UDT udt)
      else if type = ''ARRAY'' \<and> udt \<noteq> None then
        (case deduceType (the udt) None udts of
           None \<Rightarrow> Some (TArray (UNRESOLVED_UDT udt))
         | Some arrayType \<Rightarrow> Some (TArray arrayType))
      else None)"
  by pat_completeness auto
termination
  by (relation "measure (\<lambda>(type, udt, udts). case udt of None \<Rightarrow> 0 | Some u \<Rightarrow> 1)") auto

text \<open>The equation of \<open>deduceType\<close> mentions itself: it is unfolded by hand, call by call.\<close>

declare deduceType.simps [simp del]

text \<open>A row of the catalog query for columns and attributes.\<close>

record AttrRecord =
  rec_name :: string
  rec_order :: int
  rec_type :: string
  rec_udt :: "string option"
  rec_nullable :: bool
  rec_table :: string

text \<open>What a template literal prints for a \<open>string | null\<close>.\<close>

definition show_udt :: "string option \<Rightarrow> string" where
  "show_udt udt = (case udt of None \<Rightarrow> ''null'' | Some u \<Rightarrow> u)"

definition endsWith :: "string \<Rightarrow> string \<Rightarrow> bool" where
  "endsWith s suffix = (length suffix \<le> length s \<and> drop (length s - length suffix) s = suffix)"

definition startsWith :: "string \<Rightarrow> string \<Rightarrow> bool" where
  "startsWith s pre = (take (length pre) s = pre)"

text \<open>
  \<open>makeGetAttribute(udts)\<close>: the domain suffix \<open>_not_null\<close> is cut off and forces
  \<open>nullable\<close> to false, then one leading underscore (the catalog's array-element
  prefix) is cut off, then the tag is deduced; no tag is an error.
\<close>

definition getAttribute :: "UdtOptions \<Rightarrow> AttrRecord \<Rightarrow> error + AttributeData" where
  "getAttribute udts r =
     (let notNull = (case rec_udt r of None \<Rightarrow> False | Some u \<Rightarrow> endsWith u ''_not_null'');
          nullable1 = (if notNull then False else rec_nullable r);
          udt1 = (if notNull
                  then map_option (\<lambda>u. take (length u - length ''_not_null'') u) (rec_udt r)
                  else rec_udt r);
          udt2 = (case udt1 of None \<Rightarrow> None
                  | Some u \<Rightarrow> if startsWith u ''_'' then Some (drop 1 u) else Some u)
      in case deduceType (rec_type r) udt2 udts of
           None \<Rightarrow>
             Inl (Error (''Unhandled type '' @ [CHR 0x22] @ rec_type r @ ''/'' @ show_udt udt2 @
                         [CHR 0x22] @ '' for columns '' @ [CHR 0x22] @ rec_name r @
                         [CHR 0x22] @ ''.''))
         | Some t \<Rightarrow>
             Inr \<lparr>attr_name = rec_name r, attr_order = rec_order r,
                  nullable = nullable1, tsType = t\<rparr>)"

definition forceDeduceType :: "string \<Rightarrow> string option \<Rightarrow> UdtOptions \<Rightarrow> error + TsType" where
  "forceDeduceType type udt udts =
     (case deduceType type udt udts of
        None \<Rightarrow>
          Inl (Error (''Unhandled type '' @ [CHR 0x22] @ type @ ''/'' @ show_udt udt @
                      [CHR 0x22] @ ''.''))
      | Some t \<Rightarrow> Inr t)"

section \<open>Phase 2: resolution of the transient markers (packages/db-inspector)\<close>

text \<open>
  \<open>resolveType(column)\<close> reads and writes one field of its argument, \<open>column.tsType\<close>,
  and returns 0 or 1. The model takes the field's value and returns the count with the
  field's new value, or the thrown error (nothing has been written then). The lookups
  read the \<open>name\<close> and \<open>tsName\<close> of the schema's composite types and enums, which
  the pass never writes.

  The first branch is taken for an array whose element is a marker, and only then;
  the call on the element is the one recursive call, and its count is dropped.
\<close>

fun resolveType :: "EnumData list \<Rightarrow> TypeData list \<Rightarrow> TsType \<Rightarrow> error + (nat \<times> TsType)" where
  "resolveType enus tys (TArray (UNRESOLVED_UDT n)) =
     (case resolveType enus tys (UNRESOLVED_UDT n) of
        Inl e \<Rightarrow> Inl e
      | Inr (k, inner) \<Rightarrow> Inr (1, TArray inner))"
| "resolveType enus tys (UNRESOLVED_UDT n) =
     (case find (\<lambda>t. Some (type_name t) = n) tys of
        Some ty \<Rightarrow> Inr (1, TInterface (type_tsName ty))
      | None \<Rightarrow>
          (case find (\<lambda>e. Some (enum_name e) = n) enus of
             Some enu \<Rightarrow> Inr (1, TEnum (enum_tsName enu))
           | None \<Rightarrow>
               Inl (Error (''Can't resolve type '' @ [CHR 0x22] @ show_udt n @
                           [CHR 0x22] @ ''.''))))"
| "resolveType enus tys t = Inr (0, t)"

text \<open>
  The inner loops of \<open>resolveTypes\<close>: \<open>resolved += resolveType(attr)\<close> for each
  attribute in turn. The schema is mutated in place, so the model returns the list as
  the loop leaves it together with the outcome: the running count, or the error that
  ended the loop (the attributes before the failing one stay rewritten).
\<close>

fun resolveAttrs ::
  "EnumData list \<Rightarrow> TypeData list \<Rightarrow> nat \<Rightarrow> AttributeData list
     \<Rightarrow> AttributeData list \<times> (error + nat)" where
  "resolveAttrs enus tys resolved [] = ([], Inr resolved)"
| "resolveAttrs enus tys resolved (attr # rest) =
     (case resolveType enus tys (tsType attr) of
        Inl e \<Rightarrow> (attr # rest, Inl e)
      | Inr (k, t) \<Rightarrow>
          (case resolveAttrs enus tys (resolved + k) rest of
             (rest', out) \<Rightarrow> (attr\<lparr>tsType := t\<rparr> # rest', out)))"

text \<open>The three outer loops: composite types, tables, routines (parameters only).\<close>

fun resolveTypeDatas ::
  "EnumData list \<Rightarrow> TypeData list \<Rightarrow> nat \<Rightarrow> TypeData list
     \<Rightarrow> TypeData list \<times> (error + nat)" where
  "resolveTypeDatas enus tys resolved [] = ([], Inr resolved)"
| "resolveTypeDatas enus tys resolved (ty # rest) =
     (case resolveAttrs enus tys resolved (attributes ty) of
        (attrs, Inl e) \<Rightarrow> (ty\<lparr>attributes := attrs\<rparr> # rest, Inl e)
      | (attrs, Inr n) \<Rightarrow>
          (case resolveTypeDatas enus tys n rest of
             (rest', out) \<Rightarrow> (ty\<lparr>attributes := attrs\<rparr> # rest', out)))"

fun resolveTables ::
  "EnumData list \<Rightarrow> TypeData list \<Rightarrow> nat \<Rightarrow> TableData list
     \<Rightarrow> TableData list \<times> (error + nat)" where
  "resolveTables enus tys resolved [] = ([], Inr resolved)"
| "resolveTables enus tys resolved (tb # rest) =
     (case resolveAttrs enus tys resolved (columns tb) of
        (cols, Inl e) \<Rightarrow> (tb\<lparr>columns := cols\<rparr> # rest, Inl e)
      | (cols, Inr n) \<Rightarrow>
          (case resolveTables enus tys n rest of
             (rest', out) \<Rightarrow> (tb\<lparr>columns := cols\<rparr> # rest', out)))"

fun resolveFuncs ::
  "EnumData list \<Rightarrow> TypeData list \<Rightarrow> nat \<Rightarrow> FuncData list
     \<Rightarrow> FuncData list \<times> (error + nat)" where
  "resolveFuncs enus tys resolved [] = ([], Inr resolved)"
| "resolveFuncs enus tys resolved (fn # rest) =
     (case resolveAttrs enus tys resolved (parameters fn) of
        (ps, Inl e) \<Rightarrow> (fn\<lparr>parameters := ps\<rparr> # rest, Inl e)
      | (ps, Inr n) \<Rightarrow>
          (case resolveFuncs enus tys n rest of
             (rest', out) \<Rightarrow> (fn\<lparr>parameters := ps\<rparr> # rest', out)))"

text \<open>
  \<open>resolveTypes(schema)\<close>: the schema as the pass leaves it, and the count it returns
  or the error it throws. The lookups of every loop go through \<open>types\<close> and \<open>enums\<close>
  of the schema; the pass rewrites \<open>tsType\<close> fields only, which no lookup reads, so
  the lists as they were on entry serve all three loops.
\<close>

definition resolveTypes :: "SchemaData \<Rightarrow> SchemaData \<times> (error + nat)" where
  "resolveTypes schema =
     (case resolveTypeDatas (enums schema) (types schema) 0 (types schema) of
        (tys', Inl e) \<Rightarrow> (schema\<lparr>types := tys'\<rparr>, Inl e)
      | (tys', Inr n1) \<Rightarrow>
          (case resolveTables (enums schema) (types schema) n1 (tables schema) of
             (tbs', Inl e) \<Rightarrow> (schema\<lparr>types := tys', tables := tbs'\<rparr>, Inl e)
           | (tbs', Inr n2) \<Rightarrow>
               (case resolveFuncs (enums schema) (types schema) n2 (funcs schema) of
                  (fns', out) \<Rightarrow>
                    (schema\<lparr>types := tys', tables := tbs', funcs := fns'\<rparr>, out))))"

section \<open>Queries and commands (packages/metadata)\<close>

text \<open>
  A value of TypeScript's \<open>any\<close>, as far as the builder and the generator look at it:
  they compare it with \<open>undefined\<close> and with operator strings, and hand it to the
  formatter.
\<close>

datatype JsValue = JUndefined | JNull | JBool bool | JNum int | JStr string

text \<open>
  The union tagged by \<open>arity\<close>: \<open>{column, arity: 1, operator}\<close> and
  \<open>{column, arity: 2, operator, value}\<close>. An operator is a string at run time.
\<close>

datatype Condition =
    UnaryCondition string string
  | BinaryCondition string string JsValue

record OrderBy =
  ord_columns :: "string list"
  ord_direction :: string

text \<open>
  Every optional field is an option; \<open>None\<close> is \<open>undefined\<close>. \<open>limit\<close> and
  \<open>offset\<close> are integers.
\<close>

record SelectQuery =
  table :: string
  limit :: "int option"
  offset :: "int option"
  conditions :: "Condition list option"
  selected :: "string list option"
  orderBy :: "OrderBy option"

text \<open>
  \<open>UpdateCommand\<close> and \<open>DeleteCommand\<close> declare the same three fields. TypeScript
  types are structural, so they are one type, and a value of one is accepted where the
  other is expected.
\<close>

record Command =
  cmd_table :: string
  cmd_conditions :: "Condition list option"
  returning :: "string list option"

type_synonym UpdateCommand = Command

type_synonym DeleteCommand = Command

record InsertCommand =
  ins_table :: string
  ins_returning :: "string list option"

record CallCommand =
  procedure :: string
  call_parameters :: "JsValue list option"

text \<open>
  The transport interface: five operations. \<open>'r\<close> is what an operation returns to the
  caller (a promise of rows, or a rejection).
\<close>

record 'r ApiTransport =
  tselect :: "SelectQuery \<Rightarrow> 'r"
  tinsert :: "InsertCommand \<Rightarrow> 'r"
  tupdate :: "UpdateCommand \<Rightarrow> 'r"
  tdelete :: "DeleteCommand \<Rightarrow> 'r"
  tcall :: "CallCommand \<Rightarrow> 'r"

section \<open>The SQL generator (packages/sql-generator)\<close>

text \<open>
  The formatter is pg-promise's, which is not part of this repository: the generator is
  parametrised by the three functions it calls, \<open>format.name\<close>, \<open>format.value\<close> and
  \<open>format.number\<close>.
\<close>

record IFormatting =
  fmt_name :: "string \<Rightarrow> string"
  fmt_value :: "JsValue \<Rightarrow> string"
  fmt_number :: "int \<Rightarrow> string"

text \<open>\<open>Array.prototype.join\<close> on strings.\<close>

fun join :: "string \<Rightarrow> string list \<Rightarrow> string" where
  "join sep [] = []"
| "join sep [x] = x"
| "join sep (x # y # ys) = x @ sep @ join sep (y # ys)"

fun generateCondition :: "IFormatting \<Rightarrow> Condition \<Rightarrow> string" where
  "generateCondition format (UnaryCondition column operator) =
     fmt_name format column @ '' '' @ operator"
| "generateCondition format (BinaryCondition column operator v) =
     fmt_name format column @ '' '' @ operator @ fmt_value format v"

text \<open>
  \<open>SqlGenerator.select\<close>. The six constants of the source come first, then the
  template literal, line by line. What the template prints for each constant:
  \<^item> \<open>columns\<close> is the array of quoted names (printed with commas) or \<open>"*"\<close>;
  \<^item> \<open>where\<close> is \<open>select.conditions && select.conditions.length > 0\<close>, that is
    \<open>undefined\<close> or a boolean, printed as such;
  \<^item> \<open>conditions\<close> is the joined text, or \<open>""\<close> (also for an empty join);
  \<^item> \<open>limit\<close> and \<open>offset\<close> are empty for \<open>undefined\<close> and for 0;
  \<^item> \<open>orderBy\<close> is the quoted columns joined by \<open>", "\<close>, then the direction.
\<close>

definition SqlGenerator_select :: "IFormatting \<Rightarrow> SelectQuery \<Rightarrow> string" where
  "SqlGenerator_select format select =
     (let columns' = (case selected select of
                        None \<Rightarrow> ''*''
                      | Some cs \<Rightarrow> join '','' (map (fmt_name format) cs));
          where' = (case conditions select of
                      None \<Rightarrow> ''undefined''
                    | Some cs \<Rightarrow> if length cs > 0 then ''true'' else ''false'');
          conditions' = (case conditions select of
                           None \<Rightarrow> []
                         | Some cs \<Rightarrow> join '' and '' (map (generateCondition format) cs));
          limit' = (case limit select of
                      None \<Rightarrow> []
                    | Some n \<Rightarrow> if n = 0 then [] else ''limit '' @ fmt_number format n);
          offset' = (case offset select of
                       None \<Rightarrow> []
                     | Some n \<Rightarrow> if n = 0 then [] else ''offset '' @ fmt_number format n);
          orderBy' = (case orderBy select of
                        None \<Rightarrow> []
                      | Some ob \<Rightarrow>
                          ''order by '' @ join '', '' (map (fmt_name format) (ord_columns ob)) @
                          ord_direction ob)
      in [CHR 0x0A] @ ''      select '' @ columns' @
         [CHR 0x0A] @ ''      from '' @ table select @
         [CHR 0x0A] @ ''      '' @ where' @ '' '' @ conditions' @
         [CHR 0x0A] @ ''      '' @ limit' @
         [CHR 0x0A] @ ''      '' @ offset' @
         [CHR 0x0A] @ ''      '' @ orderBy' @
         [CHR 0x0A] @ ''    '')"

section \<open>The fluent client (packages/db-transport)\<close>

definition unaryOperators :: "string list" where
  "unaryOperators = [''is null'', ''is not null'']"

definition isUnaryOperator :: "string \<Rightarrow> bool" where
  "isUnaryOperator o' = (o' \<in> set unaryOperators)"

definition binaryOperators :: "string list" where
  "binaryOperators = [''='', ''>'', ''<'', ''>='', ''<='']"

definition isBinaryOperator :: "string \<Rightarrow> bool" where
  "isBinaryOperator o' = (o' \<in> set binaryOperators)"

text \<open>
  The shared \<open>where(column, query, operator, value)\<close>: it touches the \<open>conditions\<close>
  field of the query or command only, so the model maps the field's old value to its
  new one. \<open>indexOf\<close> compares by \<open>===\<close>, so only a string can be an operator; an
  \<open>operator\<close> that is none is the value of an equality.
\<close>

definition where' ::
  "string \<Rightarrow> Condition list option \<Rightarrow> JsValue \<Rightarrow> JsValue \<Rightarrow> Condition list option" where
  "where' column conds operator v =
     (let cs = (case conds of None \<Rightarrow> [] | Some cs \<Rightarrow> cs)
      in Some (cs @
           [case operator of
              JStr s \<Rightarrow>
                if v \<noteq> JUndefined \<and> isBinaryOperator s then BinaryCondition column s v
                else if isUnaryOperator s then UnaryCondition column s
                else BinaryCondition column ''='' operator
            | _ \<Rightarrow> BinaryCondition column ''='' operator]))"

text \<open>The argument of \<open>select\<close> and of \<open>returning\<close>: \<open>"*"\<close> or an array of names.\<close>

datatype Columns = All | Cols "string list"

record 'r SelectBuilder =
  sel_transport :: "'r ApiTransport"
  sel_table :: TableData
  query :: SelectQuery

definition SelectBuilder_new :: "'r ApiTransport \<Rightarrow> TableData \<Rightarrow> Columns \<Rightarrow> 'r SelectBuilder" where
  "SelectBuilder_new transport tb cols =
     \<lparr>sel_transport = transport, sel_table = tb,
      query = \<lparr>table = table_name tb, limit = None, offset = None, conditions = None,
               selected = (case cols of All \<Rightarrow> None | Cols cs \<Rightarrow> Some cs),
               orderBy = None\<rparr>\<rparr>"

definition SelectBuilder_fetch :: "'r SelectBuilder \<Rightarrow> 'r" where
  "SelectBuilder_fetch b = tselect (sel_transport b) (query b)"

definition SelectBuilder_limit :: "'r SelectBuilder \<Rightarrow> int \<Rightarrow> 'r SelectBuilder" where
  "SelectBuilder_limit b n = b\<lparr>query := (query b)\<lparr>limit := Some n\<rparr>\<rparr>"

definition SelectBuilder_offset :: "'r SelectBuilder \<Rightarrow> int \<Rightarrow> 'r SelectBuilder" where
  "SelectBuilder_offset b n = b\<lparr>query := (query b)\<lparr>offset := Some n\<rparr>\<rparr>"

definition SelectBuilder_where ::
  "'r SelectBuilder \<Rightarrow> string \<Rightarrow> JsValue \<Rightarrow> JsValue \<Rightarrow> 'r SelectBuilder" where
  "SelectBuilder_where b column operator v =
     b\<lparr>query := (query b)\<lparr>conditions := where' column (conditions (query b)) operator v\<rparr>\<rparr>"

text \<open>
  \<open>orderBy(columns, direction?)\<close>: an omitted \<open>direction\<close> is \<open>undefined\<close>, here
  \<open>None\<close>. The check comes first and throws; the assignment after it stores
  \<open>direction || "asc"\<close>, where \<open>undefined\<close> and the empty string are falsy.
\<close>

definition SelectBuilder_orderBy ::
  "'r SelectBuilder \<Rightarrow> string list \<Rightarrow> string option \<Rightarrow> error + 'r SelectBuilder" where
  "SelectBuilder_orderBy b cols direction =
     (if direction \<noteq> Some ''asc'' \<and> direction \<noteq> Some ''desc'' then
        Inl (Error (''Invalid orderBy direction: '' @ [CHR 0x22] @
                    (case direction of None \<Rightarrow> ''undefined'' | Some d \<Rightarrow> d) @
                    [CHR 0x22] @ ''.''))
      else
        Inr (b\<lparr>query := (query b)\<lparr>orderBy :=
               Some \<lparr>ord_columns = cols,
                     ord_direction = (case direction of
                                        None \<Rightarrow> ''asc''
                                      | Some d \<Rightarrow> if d = [] then ''asc'' else d)\<rparr>\<rparr>\<rparr>))"

record 'r InsertBuilder =
  ins_transport :: "'r ApiTransport"
  ins_tabledata :: TableData
  ins_command :: InsertCommand

definition InsertBuilder_execute :: "'r InsertBuilder \<Rightarrow> 'r" where
  "InsertBuilder_execute b = tinsert (ins_transport b) (ins_command b)"

record 'r UpdateBuilder =
  upd_transport :: "'r ApiTransport"
  upd_table :: TableData
  upd_command :: UpdateCommand

definition UpdateBuilder_execute :: "'r UpdateBuilder \<Rightarrow> 'r" where
  "UpdateBuilder_execute b = tupdate (upd_transport b) (upd_command b)"

record 'r DeleteBuilder =
  del_transport :: "'r ApiTransport"
  del_table :: TableData
  del_command :: DeleteCommand

definition DeleteBuilder_new :: "'r ApiTransport \<Rightarrow> TableData \<Rightarrow> 'r DeleteBuilder" where
  "DeleteBuilder_new transport tb =
     \<lparr>del_transport = transport, del_table = tb,
      del_command = \<lparr>cmd_table = table_name tb, cmd_conditions = None, returning = None\<rparr>\<rparr>"

definition DeleteBuilder_execute :: "'r DeleteBuilder \<Rightarrow> 'r" where
  "DeleteBuilder_execute b = tupdate (del_transport b) (del_command b)"

definition DeleteBuilder_returning :: "'r DeleteBuilder \<Rightarrow> Columns \<Rightarrow> 'r DeleteBuilder" where
  "DeleteBuilder_returning b cols =
     b\<lparr>del_command := (del_command b)\<lparr>returning :=
         Some (case cols of All \<Rightarrow> [''*''] | Cols cs \<Rightarrow> cs)\<rparr>\<rparr>"

definition DeleteBuilder_where ::
  "'r DeleteBuilder \<Rightarrow> string \<Rightarrow> JsValue \<Rightarrow> JsValue \<Rightarrow> 'r DeleteBuilder" where
  "DeleteBuilder_where b column operator v =
     b\<lparr>del_command := (del_command b)\<lparr>cmd_conditions :=
         where' column (cmd_conditions (del_command b)) operator v\<rparr>\<rparr>"

section \<open>Notions the properties are stated with\<close>

text \<open>A transient marker occurs in a type tag, at any depth of array nesting.\<close>

fun has_unresolved :: "TsType \<Rightarrow> bool" where
  "has_unresolved (UNRESOLVED_UDT n) = True"
| "has_unresolved (TArray t) = has_unresolved t"
| "has_unresolved t = False"

text \<open>A marker at the top of a tag, or as the element of an array at the top.\<close>

fun shallow_marker :: "TsType \<Rightarrow> bool" where
  "shallow_marker (UNRESOLVED_UDT n) = True"
| "shallow_marker (TArray (UNRESOLVED_UDT n)) = True"
| "shallow_marker t = False"

text \<open>How many arrays are nested in a tag.\<close>

fun array_depth :: "TsType \<Rightarrow> nat" where
  "array_depth (TArray t) = Suc (array_depth t)"
| "array_depth t = 0"

text \<open>
  The attributes the pass walks, in its order: those of the composite types, the
  columns of the tables, the parameters of the routines.
\<close>

definition schema_attrs :: "SchemaData \<Rightarrow> AttributeData list" where
  "schema_attrs schema =
     concat (map attributes (types schema)) @
     concat (map columns (tables schema)) @
     concat (map parameters (funcs schema))"

text \<open>Every type tag of a schema: those of the walked attributes and the return types.\<close>

definition schema_tsTypes :: "SchemaData \<Rightarrow> TsType list" where
  "schema_tsTypes schema = map tsType (schema_attrs schema) @ map returnType (funcs schema)"

text \<open>
  A schema with the type tag of every attribute, column and parameter blanked: what is
  left is the membership of the four collections, the names and display names, and the
  name, ordinal position and nullability flag of every attribute (and the return types).
\<close>

definition blank_attr :: "AttributeData \<Rightarrow> AttributeData" where
  "blank_attr a = a\<lparr>tsType := TBoolean\<rparr>"

definition blank_schema :: "SchemaData \<Rightarrow> SchemaData" where
  "blank_schema schema =
     schema\<lparr>types := map (\<lambda>ty. ty\<lparr>attributes := map blank_attr (attributes ty)\<rparr>) (types schema),
            tables := map (\<lambda>tb. tb\<lparr>columns := map blank_attr (columns tb)\<rparr>) (tables schema),
            funcs := map (\<lambda>fn. fn\<lparr>parameters := map blank_attr (parameters fn)\<rparr>) (funcs schema)\<rparr>"

section \<open>Sample inputs\<close>

definition mood_enum :: EnumData where
  "mood_enum = \<lparr>enum_name = ''mood'', enum_tsName = ''Mood'',
                 enum_fields = [\<lparr>field_name = ''sad'', field_order = 1\<rparr>,
                                \<lparr>field_name = ''happy'', field_order = 2\<rparr>]\<rparr>"

definition address_type :: TypeData where
  "address_type = \<lparr>type_name = ''address'', type_tsName = ''Address'',
                    attributes = [\<lparr>attr_name = ''city'', attr_order = 1, nullable = True,
                                   tsType = TString\<rparr>]\<rparr>"

definition no_udts :: UdtOptions where
  "no_udts = \<lparr>string = [], number = []\<rparr>"

text \<open>
  A routine as \<open>discoverFunctions\<close> builds it from the catalog rows of a function that
  takes a \<open>mood\<close> and returns a \<open>mood\<close>: the parameter's tag and the return type are
  both \<open>forceDeduceType("USER-DEFINED", "mood", udts)\<close>.
\<close>

definition returning_schema :: SchemaData where
  "returning_schema =
     \<lparr>tables = [], types = [], enums = [mood_enum],
      funcs = [\<lparr>func_name = ''cheer'',
                 parameters = [\<lparr>attr_name = ''how'', attr_order = 1, nullable = False,
                                tsType = UNRESOLVED_UDT (Some ''mood'')\<rparr>],
                 returnType = UNRESOLVED_UDT (Some ''mood'')\<rparr>]\<rparr>"

text \<open>
  A schema as Phase 1 leaves it: markers at the top and one array deep, for a composite
  type and for an enum, in all three places the pass walks.
\<close>

definition people_schema :: SchemaData where
  "people_schema =
     \<lparr>tables = [\<lparr>table_name = ''people'', table_tsName = ''People'',
                  columns = [\<lparr>attr_name = ''id'', attr_order = 1, nullable = False,
                               tsType = TNumber\<rparr>,
                             \<lparr>attr_name = ''home'', attr_order = 2, nullable = True,
                               tsType = UNRESOLVED_UDT (Some ''address'')\<rparr>,
                             \<lparr>attr_name = ''moods'', attr_order = 3, nullable = True,
                               tsType = TArray (UNRESOLVED_UDT (Some ''mood''))\<rparr>]\<rparr>],
      types = [\<lparr>type_name = ''address'', type_tsName = ''Address'',
                 attributes = [\<lparr>attr_name = ''city'', attr_order = 1, nullable = True,
                                tsType = TString\<rparr>,
                               \<lparr>attr_name = ''mood'', attr_order = 2, nullable = True,
                                tsType = UNRESOLVED_UDT (Some ''mood'')\<rparr>]\<rparr>],
      enums = [mood_enum],
      funcs = [\<lparr>func_name = ''cheer'',
                 parameters = [\<lparr>attr_name = ''whom'', attr_order = 1, nullable = False,
                                tsType = UNRESOLVED_UDT (Some ''address'')\<rparr>],
                 returnType = TBoolean\<rparr>]\<rparr>"

text \<open>The schema above after the pass: no marker is left.\<close>

definition people_resolved :: SchemaData where
  "people_resolved =
     \<lparr>tables = [\<lparr>table_name = ''people'', table_tsName = ''People'',
                  columns = [\<lparr>attr_name = ''id'', attr_order = 1, nullable = False,
                               tsType = TNumber\<rparr>,
                             \<lparr>attr_name = ''home'', attr_order = 2, nullable = True,
                               tsType = TInterface ''Address''\<rparr>,
                             \<lparr>attr_name = ''moods'', attr_order = 3, nullable = True,
                               tsType = TArray (TEnum ''Mood'')\<rparr>]\<rparr>],
      types = [\<lparr>type_name = ''address'', type_tsName = ''Address'',
                 attributes = [\<lparr>attr_name = ''city'', attr_order = 1, nullable = True,
                                tsType = TString\<rparr>,
                               \<lparr>attr_name = ''mood'', attr_order = 2, nullable = True,
                                tsType = TEnum ''Mood''\<rparr>]\<rparr>],
      enums = [mood_enum],
      funcs = [\<lparr>func_name = ''cheer'',
                 parameters = [\<lparr>attr_name = ''whom'', attr_order = 1, nullable = False,
                                tsType = TInterface ''Address''\<rparr>],
                 returnType = TBoolean\<rparr>]\<rparr>"

text \<open>An enum that shares its name with the composite type \<open>address\<close>.\<close>

definition address_enum :: EnumData where
  "address_enum = \<lparr>enum_name = ''address'', enum_tsName = ''AddressKind'', enum_fields = []\<rparr>"

text \<open>
  The catalog row of a column declared \<open>mood[][]\<close>: the catalog reports an array of any
  dimension as \<open>ARRAY\<close> with the element type's name behind one underscore.
\<close>

definition moods_row :: AttrRecord where
  "moods_row = \<lparr>rec_name = ''moods'', rec_order = 3, rec_type = ''ARRAY'',
                 rec_udt = Some ''_mood'', rec_nullable = True, rec_table = ''diary''\<rparr>"

text \<open>An allow-list for strings that holds \<open>ltree\<close>, and one that holds the empty name.\<close>

definition ltree_udts :: UdtOptions where
  "ltree_udts = \<lparr>string = [''ltree''], number = [''oid'']\<rparr>"

definition empty_name_udts :: UdtOptions where
  "empty_name_udts = \<lparr>string = [[]], number = []\<rparr>"

text \<open>A table whose first column resolves and whose second does not.\<close>

definition ghost_schema :: SchemaData where
  "ghost_schema =
     \<lparr>tables = [\<lparr>table_name = ''diary'', table_tsName = ''Diary'',
                  columns = [\<lparr>attr_name = ''mood'', attr_order = 1, nullable = False,
                               tsType = UNRESOLVED_UDT (Some ''mood'')\<rparr>,
                             \<lparr>attr_name = ''seen'', attr_order = 2, nullable = True,
                               tsType = UNRESOLVED_UDT (Some ''ghost'')\<rparr>]\<rparr>],
      types = [], enums = [mood_enum], funcs = []\<rparr>"

definition users_table :: TableData where
  "users_table = \<lparr>table_name = ''users'', table_tsName = ''Users'',
                   columns = [\<lparr>attr_name = ''id'', attr_order = 1, nullable = False,
                                tsType = TNumber\<rparr>,
                              \<lparr>attr_name = ''status'', attr_order = 2, nullable = False,
                                tsType = TString\<rparr>]\<rparr>"

text \<open>A transport whose every operation answers with its own name.\<close>

definition naming_transport :: "string ApiTransport" where
  "naming_transport =
     \<lparr>tselect = (\<lambda>q. ''select''), tinsert = (\<lambda>c. ''insert''), tupdate = (\<lambda>c. ''update''),
      tdelete = (\<lambda>c. ''delete''), tcall = (\<lambda>c. ''call'')\<rparr>"

section \<open>Phase 2: lemmas\<close>

lemma resolveType_not_marker:
  "\<not> shallow_marker t \<Longrightarrow> resolveType enus tys t = Inr (0, t)"
  by (induction enus tys t rule: resolveType.induct) simp_all

lemma resolveType_post:
  assumes "resolveType enus tys t = Inr (k, t')"
  shows "\<not> shallow_marker t'" and "array_depth t \<le> 1 \<Longrightarrow> \<not> has_unresolved t'"
    and "array_depth t' = array_depth t"
  using assms
  by (induction enus tys t arbitrary: k t' rule: resolveType.induct)
     (auto split: option.splits sum.splits elim: has_unresolved.elims)

lemma no_unresolved_not_shallow: "\<not> has_unresolved t \<Longrightarrow> \<not> shallow_marker t"
  by (induction t rule: shallow_marker.induct) simp_all

lemma resolveAttrs_post:
  assumes step: "\<And>t k t'. resolveType enus tys t = Inr (k, t') \<Longrightarrow> Q t \<Longrightarrow> P t'"
  shows "resolveAttrs enus tys r as = (as', Inr n) \<Longrightarrow>
         \<forall>a\<in>set as. Q (tsType a) \<Longrightarrow> \<forall>a\<in>set as'. P (tsType a)"
proof (induction as arbitrary: r as')
  case Nil
  then show ?case by simp
next
  case (Cons a as)
  from Cons.prems(1) obtain k t rest' where
    rt: "resolveType enus tys (tsType a) = Inr (k, t)" and
    rec: "resolveAttrs enus tys (r + k) as = (rest', Inr n)" and
    out: "as' = a\<lparr>tsType := t\<rparr> # rest'"
    by (auto split: sum.splits prod.splits)
  from step[OF rt] Cons.prems(2) have "P t" by simp
  moreover from Cons.IH[OF rec] Cons.prems(2) have "\<forall>a\<in>set rest'. P (tsType a)" by simp
  ultimately show ?case using out by simp
qed

lemma resolveAttrs_blank:
  "resolveAttrs enus tys r as = (as', out) \<Longrightarrow> map blank_attr as' = map blank_attr as"
proof (induction as arbitrary: r as' out)
  case Nil
  then show ?case by simp
next
  case (Cons a as)
  show ?case
  proof (cases "resolveType enus tys (tsType a)")
    case (Inl e)
    with Cons.prems show ?thesis by simp
  next
    case (Inr p)
    obtain k t where p: "p = (k, t)" by (cases p)
    obtain rest' o' where rec: "resolveAttrs enus tys (r + k) as = (rest', o')"
      by (cases "resolveAttrs enus tys (r + k) as")
    from Cons.prems Inr p rec have "as' = a\<lparr>tsType := t\<rparr> # rest'" by simp
    with Cons.IH[OF rec] show ?thesis by (simp add: blank_attr_def)
  qed
qed

lemma resolveAttrs_noop:
  "\<forall>a\<in>set as. \<not> shallow_marker (tsType a) \<Longrightarrow> resolveAttrs enus tys r as = (as, Inr r)"
  by (induction as arbitrary: r) (simp_all add: resolveType_not_marker)

lemma resolveTypeDatas_post:
  assumes step: "\<And>t k t'. resolveType enus tys t = Inr (k, t') \<Longrightarrow> Q t \<Longrightarrow> P t'"
  shows "resolveTypeDatas enus tys r ds = (ds', Inr n) \<Longrightarrow>
         \<forall>a\<in>set (concat (map attributes ds)). Q (tsType a) \<Longrightarrow>
         \<forall>a\<in>set (concat (map attributes ds')). P (tsType a)"
proof (induction ds arbitrary: r ds')
  case Nil
  then show ?case by simp
next
  case (Cons d ds)
  from Cons.prems(1) obtain attrs m rest' where
    ra: "resolveAttrs enus tys r (attributes d) = (attrs, Inr m)" and
    rec: "resolveTypeDatas enus tys m ds = (rest', Inr n)" and
    out: "ds' = d\<lparr>attributes := attrs\<rparr> # rest'"
    by (auto split: sum.splits prod.splits)
  from resolveAttrs_post[of enus tys Q P, OF step ra] Cons.prems(2)
  have "\<forall>a\<in>set attrs. P (tsType a)" by simp
  moreover from Cons.IH[OF rec] Cons.prems(2)
  have "\<forall>a\<in>set (concat (map attributes rest')). P (tsType a)" by simp
  ultimately show ?case using out by auto
qed

lemma resolveTypeDatas_blank:
  "resolveTypeDatas enus tys r ds = (ds', out) \<Longrightarrow>
   map (\<lambda>ty. ty\<lparr>attributes := map blank_attr (attributes ty)\<rparr>) ds'
     = map (\<lambda>ty. ty\<lparr>attributes := map blank_attr (attributes ty)\<rparr>) ds"
proof (induction ds arbitrary: r ds' out)
  case Nil
  then show ?case by simp
next
  case (Cons d ds)
  obtain attrs o1 where ra: "resolveAttrs enus tys r (attributes d) = (attrs, o1)"
    by (cases "resolveAttrs enus tys r (attributes d)")
  note b = resolveAttrs_blank[OF ra]
  show ?case
  proof (cases o1)
    case (Inl e)
    with Cons.prems ra b show ?thesis by auto
  next
    case (Inr m)
    obtain rest' o' where rec: "resolveTypeDatas enus tys m ds = (rest', o')"
      by (cases "resolveTypeDatas enus tys m ds")
    from Cons.prems ra Inr rec have "ds' = d\<lparr>attributes := attrs\<rparr> # rest'" by simp
    with Cons.IH[OF rec] b show ?thesis by simp
  qed
qed

lemma resolveTypeDatas_noop:
  "\<forall>a\<in>set (concat (map attributes ds)). \<not> shallow_marker (tsType a) \<Longrightarrow>
     resolveTypeDatas enus tys r ds = (ds, Inr r)"
  by (induction ds arbitrary: r) (simp_all add: resolveAttrs_noop)

lemma resolveTables_post:
  assumes step: "\<And>t k t'. resolveType enus tys t = Inr (k, t') \<Longrightarrow> Q t \<Longrightarrow> P t'"
  shows "resolveTables enus tys r ds = (ds', Inr n) \<Longrightarrow>
         \<forall>a\<in>set (concat (map columns ds)). Q (tsType a) \<Longrightarrow>
         \<forall>a\<in>set (concat (map columns ds')). P (tsType a)"
proof (induction ds arbitrary: r ds')
  case Nil
  then show ?case by simp
next
  case (Cons d ds)
  from Cons.prems(1) obtain attrs m rest' where
    ra: "resolveAttrs enus tys r (columns d) = (attrs, Inr m)" and
    rec: "resolveTables enus tys m ds = (rest', Inr n)" and
    out: "ds' = d\<lparr>columns := attrs\<rparr> # rest'"
    by (auto split: sum.splits prod.splits)
  from resolveAttrs_post[of enus tys Q P, OF step ra] Cons.prems(2)
  have "\<forall>a\<in>set attrs. P (tsType a)" by simp
  moreover from Cons.IH[OF rec] Cons.prems(2)
  have "\<forall>a\<in>set (concat (map columns rest')). P (tsType a)" by simp
  ultimately show ?case using out by auto
qed

lemma resolveTables_blank:
  "resolveTables enus tys r ds = (ds', out) \<Longrightarrow>
   map (\<lambda>tb. tb\<lparr>columns := map blank_attr (columns tb)\<rparr>) ds'
     = map (\<lambda>tb. tb\<lparr>columns := map blank_attr (columns tb)\<rparr>) ds"
proof (induction ds arbitrary: r ds' out)
  case Nil
  then show ?case by simp
next
  case (Cons d ds)
  obtain attrs o1 where ra: "resolveAttrs enus tys r (columns d) = (attrs, o1)"
    by (cases "resolveAttrs enus tys r (columns d)")
  note b = resolveAttrs_blank[OF ra]
  show ?case
  proof (cases o1)
    case (Inl e)
    with Cons.prems ra b show ?thesis by auto
  next
    case (Inr m)
    obtain rest' o' where rec: "resolveTables enus tys m ds = (rest', o')"
      by (cases "resolveTables enus tys m ds")
    from Cons.prems ra Inr rec have "ds' = d\<lparr>columns := attrs\<rparr> # rest'" by simp
    with Cons.IH[OF rec] b show ?thesis by simp
  qed
qed

lemma resolveTables_noop:
  "\<forall>a\<in>set (concat (map columns ds)). \<not> shallow_marker (tsType a) \<Longrightarrow>
     resolveTables enus tys r ds = (ds, Inr r)"
  by (induction ds arbitrary: r) (simp_all add: resolveAttrs_noop)

lemma resolveFuncs_post:
  assumes step: "\<And>t k t'. resolveType enus tys t = Inr (k, t') \<Longrightarrow> Q t \<Longrightarrow> P t'"
  shows "resolveFuncs enus tys r ds = (ds', Inr n) \<Longrightarrow>
         \<forall>a\<in>set (concat (map parameters ds)). Q (tsType a) \<Longrightarrow>
         \<forall>a\<in>set (concat (map parameters ds')). P (tsType a)"
proof (induction ds arbitrary: r ds')
  case Nil
  then show ?case by simp
next
  case (Cons d ds)
  from Cons.prems(1) obtain attrs m rest' where
    ra: "resolveAttrs enus tys r (parameters d) = (attrs, Inr m)" and
    rec: "resolveFuncs enus tys m ds = (rest', Inr n)" and
    out: "ds' = d\<lparr>parameters := attrs\<rparr> # rest'"
    by (auto split: sum.splits prod.splits)
  from resolveAttrs_post[of enus tys Q P, OF step ra] Cons.prems(2)
  have "\<forall>a\<in>set attrs. P (tsType a)" by simp
  moreover from Cons.IH[OF rec] Cons.prems(2)
  have "\<forall>a\<in>set (concat (map parameters rest')). P (tsType a)" by simp
  ultimately show ?case using out by auto
qed

lemma resolveFuncs_blank:
  "resolveFuncs enus tys r ds = (ds', out) \<Longrightarrow>
   map (\<lambda>fn. fn\<lparr>parameters := map blank_attr (parameters fn)\<rparr>) ds'
     = map (\<lambda>fn. fn\<lparr>parameters := map blank_attr (parameters fn)\<rparr>) ds"
proof (induction ds arbitrary: r ds' out)
  case Nil
  then show ?case by simp
next
  case (Cons d ds)
  obtain attrs o1 where ra: "resolveAttrs enus tys r (parameters d) = (attrs, o1)"
    by (cases "resolveAttrs enus tys r (parameters d)")
  note b = resolveAttrs_blank[OF ra]
  show ?case
  proof (cases o1)
    case (Inl e)
    with Cons.prems ra b show ?thesis by auto
  next
    case (Inr m)
    obtain rest' o' where rec: "resolveFuncs enus tys m ds = (rest', o')"
      by (cases "resolveFuncs enus tys m ds")
    from Cons.prems ra Inr rec have "ds' = d\<lparr>parameters := attrs\<rparr> # rest'" by simp
    with Cons.IH[OF rec] b show ?thesis by simp
  qed
qed

lemma resolveFuncs_noop:
  "\<forall>a\<in>set (concat (map parameters ds)). \<not> shallow_marker (tsType a) \<Longrightarrow>
     resolveFuncs enus tys r ds = (ds, Inr r)"
  by (induction ds arbitrary: r) (simp_all add: resolveAttrs_noop)

text \<open>
  The lookups read names and display names only, so they give the same answers on the
  composite types as the pass leaves them and as it found them.
\<close>

lemma find_type_names:
  "map (\<lambda>t. (type_name t, type_tsName t)) tys = map (\<lambda>t. (type_name t, type_tsName t)) tys' \<Longrightarrow>
   map_option type_tsName (find (\<lambda>t. Some (type_name t) = n) tys)
     = map_option type_tsName (find (\<lambda>t. Some (type_name t) = n) tys')"
  by (induction tys arbitrary: tys') auto

lemma resolveType_reads_names:
  assumes "map (\<lambda>t. (type_name t, type_tsName t)) tys = map (\<lambda>t. (type_name t, type_tsName t)) tys'"
  shows "resolveType enus tys t = resolveType enus tys' t"
proof -
  have udt: "resolveType enus tys (UNRESOLVED_UDT n) = resolveType enus tys' (UNRESOLVED_UDT n)" for n
    using find_type_names[OF assms, of n]
    by (cases "find (\<lambda>t. Some (type_name t) = n) tys";
        cases "find (\<lambda>t. Some (type_name t) = n) tys'") auto
  show ?thesis
    by (cases "(enus, tys, t)" rule: resolveType.cases)
       (simp_all add: udt del: resolveType.simps(2))
qed

lemma resolveTypeDatas_lookups:
  assumes "resolveTypeDatas enus tys r ds = (ds', out)"
  shows "resolveType enus' ds' t = resolveType enus' ds t"
proof -
  let ?b = "\<lambda>ty. ty\<lparr>attributes := map blank_attr (attributes ty)\<rparr>"
  let ?f = "\<lambda>t. (type_name t, type_tsName t)"
  from resolveTypeDatas_blank[OF assms] have "map ?f (map ?b ds') = map ?f (map ?b ds)"
    by simp
  then have "map ?f ds' = map ?f ds"
    by (simp add: comp_def)
  then show ?thesis
    by (rule resolveType_reads_names)
qed

lemma resolveTypes_post:
  assumes step: "\<And>t k t'. resolveType (enums schema) (types schema) t = Inr (k, t') \<Longrightarrow> Q t \<Longrightarrow> P t'"
    and run: "resolveTypes schema = (schema', Inr n)"
    and pre: "\<forall>a\<in>set (schema_attrs schema). Q (tsType a)"
  shows "\<forall>a\<in>set (schema_attrs schema'). P (tsType a)"
proof -
  from run obtain tys' n1 tbs' n2 fns' where
    r1: "resolveTypeDatas (enums schema) (types schema) 0 (types schema) = (tys', Inr n1)" and
    r2: "resolveTables (enums schema) (types schema) n1 (tables schema) = (tbs', Inr n2)" and
    r3: "resolveFuncs (enums schema) (types schema) n2 (funcs schema) = (fns', Inr n)" and
    out: "schema' = schema\<lparr>types := tys', tables := tbs', funcs := fns'\<rparr>"
    by (auto simp: resolveTypes_def split: prod.splits sum.splits)
  from pre have
    q1: "\<forall>a\<in>set (concat (map attributes (types schema))). Q (tsType a)" and
    q2: "\<forall>a\<in>set (concat (map columns (tables schema))). Q (tsType a)" and
    q3: "\<forall>a\<in>set (concat (map parameters (funcs schema))). Q (tsType a)"
    by (simp_all add: schema_attrs_def ball_Un)
  note p1 = resolveTypeDatas_post[of "enums schema" "types schema" Q P, OF step r1 q1]
  note p2 = resolveTables_post[of "enums schema" "types schema" Q P, OF step r2 q2]
  note p3 = resolveFuncs_post[of "enums schema" "types schema" Q P, OF step r3 q3]
  from p1 p2 p3 show ?thesis
    unfolding out schema_attrs_def by (simp add: ball_Un)
qed

lemma schema_attrs_blank:
  "schema_attrs (blank_schema schema) = map blank_attr (schema_attrs schema)"
  by (simp add: schema_attrs_def blank_schema_def map_concat comp_def)

lemma resolveTypes_blank:
  "resolveTypes schema = (schema', out) \<Longrightarrow> blank_schema schema' = blank_schema schema"
proof -
  assume run: "resolveTypes schema = (schema', out)"
  obtain tys' o1 where
    r1: "resolveTypeDatas (enums schema) (types schema) 0 (types schema) = (tys', o1)"
    by (cases "resolveTypeDatas (enums schema) (types schema) 0 (types schema)")
  note b1 = resolveTypeDatas_blank[OF r1]
  show ?thesis
  proof (cases o1)
    case (Inl e)
    with run r1 have "schema' = schema\<lparr>types := tys'\<rparr>"
      by (simp add: resolveTypes_def)
    with b1 show ?thesis by (simp add: blank_schema_def)
  next
    case n1: (Inr n1)
    obtain tbs' o2 where
      r2: "resolveTables (enums schema) (types schema) n1 (tables schema) = (tbs', o2)"
      by (cases "resolveTables (enums schema) (types schema) n1 (tables schema)")
    note b2 = resolveTables_blank[OF r2]
    show ?thesis
    proof (cases o2)
      case (Inl e)
      with run r1 n1 r2 have "schema' = schema\<lparr>types := tys', tables := tbs'\<rparr>"
        by (simp add: resolveTypes_def)
      with b1 b2 show ?thesis by (simp add: blank_schema_def)
    next
      case n2: (Inr n2)
      obtain fns' o3 where
        r3: "resolveFuncs (enums schema) (types schema) n2 (funcs schema) = (fns', o3)"
        by (cases "resolveFuncs (enums schema) (types schema) n2 (funcs schema)")
      note b3 = resolveFuncs_blank[OF r3]
      from run r1 n1 r2 n2 r3
      have "schema' = schema\<lparr>types := tys', tables := tbs', funcs := fns'\<rparr>"
        by (simp add: resolveTypes_def)
      with b1 b2 b3 show ?thesis by (simp add: blank_schema_def)
    qed
  qed
qed

lemma resolveTypes_noop:
  assumes "\<forall>a\<in>set (schema_attrs schema). \<not> shallow_marker (tsType a)"
  shows "resolveTypes schema = (schema, Inr 0)"
proof -
  from assms have
    q1: "\<forall>a\<in>set (concat (map attributes (types schema))). \<not> shallow_marker (tsType a)" and
    q2: "\<forall>a\<in>set (concat (map columns (tables schema))). \<not> shallow_marker (tsType a)" and
    q3: "\<forall>a\<in>set (concat (map parameters (funcs schema))). \<not> shallow_marker (tsType a)"
    by (simp_all add: schema_attrs_def ball_Un)
  show ?thesis
    by (simp add: resolveTypes_def resolveTypeDatas_noop[OF q1] resolveTables_noop[OF q2]
        resolveFuncs_noop[OF q3])
qed

section \<open>C2: markers after the resolution pass\<close>

text \<open>
  What the pass achieves where it walks. When \<open>resolveTypes\<close> returns normally, no
  attribute of a composite type, column of a table or parameter of a routine has a
  marker as its tag or as the element of its array tag; and when no such tag nests
  arrays more than one deep (all that Phase 1 produces, see \<open>deduceType_depth\<close> below),
  no marker is left in those three places at any depth.
\<close>

lemma resolveTypes_walked_resolved:
  assumes "resolveTypes schema = (schema', Inr n)"
  shows "(\<forall>a\<in>set (schema_attrs schema'). \<not> shallow_marker (tsType a)) \<and>
         ((\<forall>a\<in>set (schema_attrs schema). array_depth (tsType a) \<le> 1) \<longrightarrow>
          (\<forall>a\<in>set (schema_attrs schema'). \<not> has_unresolved (tsType a)))"
proof (intro conjI impI)
  show "\<forall>a\<in>set (schema_attrs schema'). \<not> shallow_marker (tsType a)"
    by (rule resolveTypes_post[where Q = "\<lambda>t. True", OF _ assms])
       (simp_all add: resolveType_post(1))
next
  assume flat: "\<forall>a\<in>set (schema_attrs schema). array_depth (tsType a) \<le> 1"
  show "\<forall>a\<in>set (schema_attrs schema'). \<not> has_unresolved (tsType a)"
    by (rule resolveTypes_post[where Q = "\<lambda>t. array_depth t \<le> 1", OF _ assms flat])
       (simp add: resolveType_post(2))
qed

text \<open>The pass on the sample schema: four attributes resolved.\<close>

lemma people_run: "resolveTypes people_schema = (people_resolved, Inr 4)"
  by (simp add: resolveTypes_def people_schema_def people_resolved_def mood_enum_def)

text \<open>
  The fact above at the sample schema, which is at most one array deep and has markers:
  the pass returns 4 and the attributes it leaves have none.
\<close>

lemma resolveTypes_walked_resolved_sample:
  "resolveTypes people_schema = (people_resolved, Inr 4) \<and>
   list_all (\<lambda>a. array_depth (tsType a) \<le> 1) (schema_attrs people_schema) \<and>
   list_ex (\<lambda>a. shallow_marker (tsType a)) (schema_attrs people_schema) \<and>
   list_all (\<lambda>a. \<not> has_unresolved (tsType a)) (schema_attrs people_resolved)"
proof -
  have flat: "list_all (\<lambda>a. array_depth (tsType a) \<le> 1) (schema_attrs people_schema)"
    by (simp add: schema_attrs_def people_schema_def)
  have marked: "list_ex (\<lambda>a. shallow_marker (tsType a)) (schema_attrs people_schema)"
    by (simp add: schema_attrs_def people_schema_def)
  from resolveTypes_walked_resolved[OF people_run] flat
  have "list_all (\<lambda>a. \<not> has_unresolved (tsType a)) (schema_attrs people_resolved)"
    by (simp add: list_all_iff)
  with people_run flat marked show ?thesis by simp
qed

text \<open>
  C2, at a schema with one routine that takes a \<open>mood\<close> and returns a \<open>mood\<close>. Phase 1
  tags a user-defined return type with the marker, as it does a parameter. The pass
  returns normally with count 1: it has resolved the parameter to the enum reference
  and has not visited the return type, so a marker is left in the schema it returns.
\<close>

theorem return_type_marker_survives:
  "forceDeduceType ''USER-DEFINED'' (Some ''mood'') no_udts = Inr (UNRESOLVED_UDT (Some ''mood'')) \<and>
   resolveTypes returning_schema =
     (returning_schema
        \<lparr>funcs := [\<lparr>func_name = ''cheer'',
                     parameters = [\<lparr>attr_name = ''how'', attr_order = 1, nullable = False,
                                    tsType = TEnum ''Mood''\<rparr>],
                     returnType = UNRESOLVED_UDT (Some ''mood'')\<rparr>]\<rparr>,
      Inr 1) \<and>
   map returnType (funcs (fst (resolveTypes returning_schema))) = [UNRESOLVED_UDT (Some ''mood'')] \<and>
   list_ex has_unresolved (schema_tsTypes (fst (resolveTypes returning_schema)))"
proof -
  have d: "forceDeduceType ''USER-DEFINED'' (Some ''mood'') no_udts
           = Inr (UNRESOLVED_UDT (Some ''mood''))"
    unfolding forceDeduceType_def
    by (subst deduceType.simps)
       (simp add: no_udts_def isNumberType_def isStringType_def isKnownDateType_def
          udt_included_def)
  have r: "resolveTypes returning_schema =
     (returning_schema
        \<lparr>funcs := [\<lparr>func_name = ''cheer'',
                     parameters = [\<lparr>attr_name = ''how'', attr_order = 1, nullable = False,
                                    tsType = TEnum ''Mood''\<rparr>],
                     returnType = UNRESOLVED_UDT (Some ''mood'')\<rparr>]\<rparr>,
      Inr 1)"
    by (simp add: resolveTypes_def returning_schema_def mood_enum_def)
  from d r show ?thesis
    by (simp add: schema_tsTypes_def)
qed

section \<open>C7: the pass on a resolved schema\<close>

text \<open>
  C7. On a schema with no marker in any type tag, the pass returns 0 and leaves the
  schema as it was, every tag included.
\<close>

theorem resolveTypes_idempotent:
  assumes "\<forall>t\<in>set (schema_tsTypes schema). \<not> has_unresolved t"
  shows "resolveTypes schema = (schema, Inr 0)"
  using assms
  by (intro resolveTypes_noop) (simp add: schema_tsTypes_def no_unresolved_not_shallow)

text \<open>Witness for C7: the resolved sample schema.\<close>

theorem resolveTypes_idempotent_witness:
  "list_all (\<lambda>t. \<not> has_unresolved t) (schema_tsTypes people_resolved) \<and>
   resolveTypes people_resolved = (people_resolved, Inr 0)"
  using resolveTypes_idempotent[of people_resolved]
  by (simp add: list_all_iff schema_tsTypes_def schema_attrs_def people_resolved_def)

section \<open>C9: what the pass leaves alone\<close>

text \<open>
  C9. Whatever the outcome, the schema the pass leaves differs from the one it was
  given in the type tags of attributes, columns and parameters only: with those
  blanked the two schemas are equal. In particular the enums are the same, the
  attributes are the same in number and order with the same names, ordinal positions
  and nullability flags, and the return types are the same.
\<close>

theorem resolveTypes_frame:
  "blank_schema (fst (resolveTypes schema)) = blank_schema schema \<and>
   enums (fst (resolveTypes schema)) = enums schema \<and>
   map (\<lambda>a. (attr_name a, attr_order a, nullable a)) (schema_attrs (fst (resolveTypes schema)))
     = map (\<lambda>a. (attr_name a, attr_order a, nullable a)) (schema_attrs schema) \<and>
   map returnType (funcs (fst (resolveTypes schema))) = map returnType (funcs schema)"
proof -
  obtain schema' out where run: "resolveTypes schema = (schema', out)"
    by (cases "resolveTypes schema")
  note b = resolveTypes_blank[OF run]
  have e: "enums schema' = enums schema"
    using arg_cong[OF b, of enums] by (simp add: blank_schema_def)
  have "map ((\<lambda>a. (attr_name a, attr_order a, nullable a)) \<circ> blank_attr) (schema_attrs schema')
      = map ((\<lambda>a. (attr_name a, attr_order a, nullable a)) \<circ> blank_attr) (schema_attrs schema)"
    using arg_cong[OF b, of "\<lambda>s. map (\<lambda>a. (attr_name a, attr_order a, nullable a)) (schema_attrs s)"]
    by (simp add: schema_attrs_blank)
  then have a: "map (\<lambda>a. (attr_name a, attr_order a, nullable a)) (schema_attrs schema')
      = map (\<lambda>a. (attr_name a, attr_order a, nullable a)) (schema_attrs schema)"
    by (simp add: comp_def blank_attr_def)
  have "map returnType (funcs (blank_schema schema')) = map returnType (funcs (blank_schema schema))"
    using b by simp
  then have r: "map returnType (funcs schema') = map returnType (funcs schema)"
    by (simp add: blank_schema_def comp_def)
  from b e a r run show ?thesis by simp
qed

text \<open>The pass on a schema whose second column names no type: the first is rewritten, then the error.\<close>

lemma ghost_run:
  "resolveTypes ghost_schema =
     (ghost_schema\<lparr>tables := [\<lparr>table_name = ''diary'', table_tsName = ''Diary'',
                  columns = [\<lparr>attr_name = ''mood'', attr_order = 1, nullable = False,
                               tsType = TEnum ''Mood''\<rparr>,
                             \<lparr>attr_name = ''seen'', attr_order = 2, nullable = True,
                               tsType = UNRESOLVED_UDT (Some ''ghost'')\<rparr>]\<rparr>]\<rparr>,
      Inl (Error (''Can't resolve type '' @ [CHR 0x22] @ ''ghost'' @ [CHR 0x22] @ ''.'')))"
  by (simp add: resolveTypes_def ghost_schema_def mood_enum_def show_udt_def)

text \<open>
  Witness for C9: a run that returns and a run that throws. Both change type tags, and
  nothing else.
\<close>

theorem resolveTypes_frame_witness:
  "fst (resolveTypes people_schema) = people_resolved \<and>
   people_resolved \<noteq> people_schema \<and>
   blank_schema people_resolved = blank_schema people_schema \<and>
   snd (resolveTypes ghost_schema) =
     Inl (Error (''Can't resolve type '' @ [CHR 0x22] @ ''ghost'' @ [CHR 0x22] @ ''.'')) \<and>
   fst (resolveTypes ghost_schema) \<noteq> ghost_schema \<and>
   blank_schema (fst (resolveTypes ghost_schema)) = blank_schema ghost_schema"
proof -
  have "people_resolved \<noteq> people_schema"
    by (simp add: people_resolved_def people_schema_def)
  moreover have "fst (resolveTypes ghost_schema) \<noteq> ghost_schema"
    by (simp add: ghost_run) (simp add: ghost_schema_def)
  ultimately show ?thesis
    using resolveTypes_frame[of people_schema] resolveTypes_frame[of ghost_schema]
    by (simp add: people_run ghost_run)
qed

section \<open>Phase 1: lemmas\<close>

lemma find_SomeD': "find P xs = Some x \<Longrightarrow> x \<in> set xs \<and> P x"
  by (induction xs) (auto split: if_splits)

lemma deduceType_no_udt_not_array: "deduceType type None udts \<noteq> Some (TArray t)"
  by (subst deduceType.simps) simp

lemma deduceType_depth: "deduceType type udt udts = Some t \<Longrightarrow> array_depth t \<le> 1"
proof -
  assume d: "deduceType type udt udts = Some t"
  show ?thesis
  proof (cases "deduceType (the udt) None udts")
    case None
    with d show ?thesis
      by (subst (asm) deduceType.simps) (auto split: if_splits)
  next
    case (Some inner)
    with deduceType_no_udt_not_array[of "the udt" udts] have "array_depth inner = 0"
      by (cases inner) auto
    with d Some show ?thesis
      by (subst (asm) deduceType.simps) (auto split: if_splits)
  qed
qed

section \<open>C6: the lookup of a marker's name\<close>

text \<open>
  C6. For a marker \<open>UNRESOLVED_UDT name\<close>: if a composite type is named \<open>name\<close>, the
  marker is replaced by the reference to such a composite type (whether or not an enum
  has the name too); if none is and an enum is named \<open>name\<close>, by the reference to such
  an enum; if neither collection has the name, an error is thrown, and its message is
  \<open>Can't resolve type "name".\<close>
\<close>

theorem resolveType_lookup:
  "((\<exists>ty\<in>set tys. type_name ty = name) \<longrightarrow>
      (\<exists>ty\<in>set tys. type_name ty = name \<and>
         resolveType enus tys (UNRESOLVED_UDT (Some name)) = Inr (1, TInterface (type_tsName ty)))) \<and>
   ((\<forall>ty\<in>set tys. type_name ty \<noteq> name) \<and> (\<exists>enu\<in>set enus. enum_name enu = name) \<longrightarrow>
      (\<exists>enu\<in>set enus. enum_name enu = name \<and>
         resolveType enus tys (UNRESOLVED_UDT (Some name)) = Inr (1, TEnum (enum_tsName enu)))) \<and>
   ((\<forall>ty\<in>set tys. type_name ty \<noteq> name) \<and> (\<forall>enu\<in>set enus. enum_name enu \<noteq> name) \<longrightarrow>
      resolveType enus tys (UNRESOLVED_UDT (Some name)) =
        Inl (Error (''Can't resolve type '' @ [CHR 0x22] @ name @ [CHR 0x22] @ ''.'')))"
proof (intro conjI impI)
  assume "\<exists>ty\<in>set tys. type_name ty = name"
  then obtain ty where f: "find (\<lambda>t. Some (type_name t) = Some name) tys = Some ty"
    by (cases "find (\<lambda>t. Some (type_name t) = Some name) tys") (auto simp: find_None_iff)
  from find_SomeD'[OF f] have "ty \<in> set tys" "type_name ty = name" by simp_all
  with f show "\<exists>ty\<in>set tys. type_name ty = name \<and>
         resolveType enus tys (UNRESOLVED_UDT (Some name)) = Inr (1, TInterface (type_tsName ty))"
    by auto
next
  assume a: "(\<forall>ty\<in>set tys. type_name ty \<noteq> name) \<and> (\<exists>enu\<in>set enus. enum_name enu = name)"
  then have nt: "find (\<lambda>t. Some (type_name t) = Some name) tys = None"
    by (simp add: find_None_iff)
  from a obtain enu where f: "find (\<lambda>e. Some (enum_name e) = Some name) enus = Some enu"
    by (cases "find (\<lambda>e. Some (enum_name e) = Some name) enus") (auto simp: find_None_iff)
  from find_SomeD'[OF f] have "enu \<in> set enus" "enum_name enu = name" by simp_all
  with nt f show "\<exists>enu\<in>set enus. enum_name enu = name \<and>
         resolveType enus tys (UNRESOLVED_UDT (Some name)) = Inr (1, TEnum (enum_tsName enu))"
    by auto
next
  assume a: "(\<forall>ty\<in>set tys. type_name ty \<noteq> name) \<and> (\<forall>enu\<in>set enus. enum_name enu \<noteq> name)"
  then have "find (\<lambda>t. Some (type_name t) = Some name) tys = None"
    and "find (\<lambda>e. Some (enum_name e) = Some name) enus = None"
    by (simp_all add: find_None_iff)
  then show "resolveType enus tys (UNRESOLVED_UDT (Some name)) =
        Inl (Error (''Can't resolve type '' @ [CHR 0x22] @ name @ [CHR 0x22] @ ''.''))"
    by (simp add: show_udt_def)
qed

text \<open>
  Witness for C6: \<open>address\<close> names a composite type and an enum, \<open>mood\<close> an enum only,
  \<open>ghost\<close> nothing.
\<close>

theorem resolveType_lookup_witness:
  "resolveType [mood_enum, address_enum] [address_type] (UNRESOLVED_UDT (Some ''address''))
     = Inr (1, TInterface ''Address'') \<and>
   resolveType [mood_enum, address_enum] [address_type] (UNRESOLVED_UDT (Some ''mood''))
     = Inr (1, TEnum ''Mood'') \<and>
   resolveType [mood_enum, address_enum] [address_type] (UNRESOLVED_UDT (Some ''ghost''))
     = Inl (Error (''Can't resolve type '' @ [CHR 0x22] @ ''ghost'' @ [CHR 0x22] @ ''.''))"
  using resolveType_lookup[of "[address_type]" "''address''" "[mood_enum, address_enum]"]
    resolveType_lookup[of "[address_type]" "''mood''" "[mood_enum, address_enum]"]
    resolveType_lookup[of "[address_type]" "''ghost''" "[mood_enum, address_enum]"]
  by (simp add: mood_enum_def address_enum_def address_type_def)

section \<open>C3: arrays of enums\<close>

text \<open>
  C3, as amended. For a raw type marked \<open>ARRAY\<close> whose element name \<open>x\<close> deduces to
  nothing by itself, names no composite type and names an enum (and \<open>ARRAY\<close> is in
  neither allow-list): Phase 1 yields the array of the marker for \<open>x\<close>, and Phase 2
  turns it into the array of the reference to the enum, one array deep. No raw input
  gets deeper: whatever Phase 1 deduces and Phase 2 then resolves nests at most one
  array.
\<close>

theorem array_of_enum_resolves:
  assumes arr: "''ARRAY'' \<notin> set (number udts)" "''ARRAY'' \<notin> set (string udts)"
    and elem: "deduceType x None udts = None"
    and notype: "\<forall>ty\<in>set tys. type_name ty \<noteq> x"
    and enum: "\<exists>enu\<in>set enus. enum_name enu = x"
  shows "deduceType ''ARRAY'' (Some x) udts = Some (TArray (UNRESOLVED_UDT (Some x))) \<and>
         (\<exists>enu\<in>set enus. enum_name enu = x \<and>
            resolveType enus tys (TArray (UNRESOLVED_UDT (Some x)))
              = Inr (1, TArray (TEnum (enum_tsName enu)))) \<and>
         (\<forall>type udt t k t'. deduceType type udt udts = Some t \<and>
            resolveType enus tys t = Inr (k, t') \<longrightarrow> array_depth t' \<le> 1)"
proof (intro conjI allI impI)
  from elem have
    "x \<noteq> ''boolean''" "\<not> isNumberType (Some x)" "x \<notin> set (number udts)"
    "\<not> isStringType (Some x)" "x \<notin> set (string udts)" "\<not> isKnownDateType (Some x)"
    by (subst (asm) deduceType.simps, simp split: if_splits)+
  with arr elem show "deduceType ''ARRAY'' (Some x) udts = Some (TArray (UNRESOLVED_UDT (Some x)))"
    by (subst deduceType.simps)
       (simp add: isNumberType_def isStringType_def isKnownDateType_def udt_included_def)
next
  from notype have nt: "find (\<lambda>t. Some (type_name t) = Some x) tys = None"
    by (simp add: find_None_iff)
  from enum obtain enu where f: "find (\<lambda>e. Some (enum_name e) = Some x) enus = Some enu"
    by (cases "find (\<lambda>e. Some (enum_name e) = Some x) enus") (auto simp: find_None_iff)
  from find_SomeD'[OF f] have "enu \<in> set enus" "enum_name enu = x" by simp_all
  with nt f show "\<exists>enu\<in>set enus. enum_name enu = x \<and>
            resolveType enus tys (TArray (UNRESOLVED_UDT (Some x)))
              = Inr (1, TArray (TEnum (enum_tsName enu)))"
    by auto
next
  fix type udt t k t'
  assume "deduceType type udt udts = Some t \<and> resolveType enus tys t = Inr (k, t')"
  then show "array_depth t' \<le> 1"
    using deduceType_depth resolveType_post(3) by metis
qed

text \<open>Witness for C3: the array of the enum \<open>mood\<close>.\<close>

theorem array_of_enum_resolves_witness:
  "deduceType ''mood'' None no_udts = None \<and>
   deduceType ''ARRAY'' (Some ''mood'') no_udts = Some (TArray (UNRESOLVED_UDT (Some ''mood''))) \<and>
   resolveType [mood_enum] [address_type] (TArray (UNRESOLVED_UDT (Some ''mood'')))
     = Inr (1, TArray (TEnum ''Mood''))"
proof -
  have elem: "deduceType ''mood'' None no_udts = None"
    by (subst deduceType.simps)
       (simp add: no_udts_def isNumberType_def isStringType_def isKnownDateType_def udt_included_def)
  have "resolveType [mood_enum] [address_type] (TArray (UNRESOLVED_UDT (Some ''mood'')))
     = Inr (1, TArray (TEnum ''Mood''))"
    by (simp add: mood_enum_def address_type_def)
  with elem array_of_enum_resolves[of no_udts "''mood''" "[address_type]" "[mood_enum]", OF _ _ elem]
  show ?thesis
    by (simp add: no_udts_def mood_enum_def address_type_def)
qed

text \<open>
  Counterexample to C3 as stated. The catalog row of a column declared as an array of
  arrays of the enum \<open>mood\<close> becomes an attribute tagged array of the marker, which
  resolves to the array of the enum reference, and that is not the array of the array
  of it. Naming the element by the catalog's name of the array type of \<open>mood\<close>
  (\<open>_mood\<close>) gives an array of a marker that does not resolve.
\<close>

theorem nested_enum_array_not_nested:
  "getAttribute no_udts moods_row =
     Inr \<lparr>attr_name = ''moods'', attr_order = 3, nullable = True,
          tsType = TArray (UNRESOLVED_UDT (Some ''mood''))\<rparr> \<and>
   resolveType [mood_enum] [] (TArray (UNRESOLVED_UDT (Some ''mood'')))
     = Inr (1, TArray (TEnum ''Mood'')) \<and>
   TArray (TEnum ''Mood'') \<noteq> TArray (TArray (TEnum ''Mood'')) \<and>
   deduceType ''ARRAY'' (Some ''_mood'') no_udts
     = Some (TArray (UNRESOLVED_UDT (Some ''_mood''))) \<and>
   resolveType [mood_enum] [] (TArray (UNRESOLVED_UDT (Some ''_mood'')))
     = Inl (Error (''Can't resolve type '' @ [CHR 0x22] @ ''_mood'' @ [CHR 0x22] @ ''.''))"
proof -
  have d1: "deduceType ''mood'' None no_udts = None"
    by (subst deduceType.simps)
       (simp add: no_udts_def isNumberType_def isStringType_def isKnownDateType_def udt_included_def)
  have d2: "deduceType ''ARRAY'' (Some ''mood'') no_udts
     = Some (TArray (UNRESOLVED_UDT (Some ''mood'')))"
    by (subst deduceType.simps)
       (simp add: d1[unfolded no_udts_def] no_udts_def isNumberType_def isStringType_def isKnownDateType_def udt_included_def)
  have d3: "deduceType ''_mood'' None no_udts = None"
    by (subst deduceType.simps)
       (simp add: no_udts_def isNumberType_def isStringType_def isKnownDateType_def udt_included_def)
  have d4: "deduceType ''ARRAY'' (Some ''_mood'') no_udts
     = Some (TArray (UNRESOLVED_UDT (Some ''_mood'')))"
    by (subst deduceType.simps)
       (simp add: d3[unfolded no_udts_def] no_udts_def isNumberType_def isStringType_def isKnownDateType_def udt_included_def)
  have g: "getAttribute no_udts moods_row =
     Inr \<lparr>attr_name = ''moods'', attr_order = 3, nullable = True,
          tsType = TArray (UNRESOLVED_UDT (Some ''mood''))\<rparr>"
    by (simp add: getAttribute_def moods_row_def endsWith_def startsWith_def d2)
  have r1: "resolveType [mood_enum] [] (TArray (UNRESOLVED_UDT (Some ''mood'')))
     = Inr (1, TArray (TEnum ''Mood''))"
    by (simp add: mood_enum_def)
  have r2: "resolveType [mood_enum] [] (TArray (UNRESOLVED_UDT (Some ''_mood'')))
     = Inl (Error (''Can't resolve type '' @ [CHR 0x22] @ ''_mood'' @ [CHR 0x22] @ ''.''))"
    by (simp add: mood_enum_def show_udt_def)
  from g r1 r2 d4 show ?thesis by simp
qed

section \<open>C8: the allow-list for strings\<close>

text \<open>
  C8, as amended. When neither name is \<open>boolean\<close> or a built-in numeric type or in
  the allow-list for numbers, and the raw type name is in the allow-list for strings,
  or the underlying name is non-empty and in it, Phase 1 returns String.
\<close>

theorem string_allow_list:
  assumes "type \<noteq> ''boolean''" "udt \<noteq> Some ''boolean''"
    and "\<not> isNumberType (Some type)" "\<not> isNumberType udt"
    and "type \<notin> set (number udts)" "\<forall>u. udt = Some u \<longrightarrow> u \<notin> set (number udts)"
    and "type \<in> set (string udts) \<or> (\<exists>u. udt = Some u \<and> u \<noteq> [] \<and> u \<in> set (string udts))"
  shows "deduceType type udt udts = Some TString"
  using assms
  by (subst deduceType.simps) (auto simp: udt_included_def split: option.splits)

text \<open>
  Witness for C8: \<open>ltree\<close> as the raw name, and as the underlying name of a
  user-defined and of an array type.
\<close>

theorem string_allow_list_witness:
  "deduceType ''ltree'' None ltree_udts = Some TString \<and>
   deduceType ''USER-DEFINED'' (Some ''ltree'') ltree_udts = Some TString \<and>
   deduceType ''ARRAY'' (Some ''ltree'') ltree_udts = Some TString"
  using string_allow_list[of "''ltree''" None ltree_udts]
    string_allow_list[of "''USER-DEFINED''" "Some ''ltree''" ltree_udts]
    string_allow_list[of "''ARRAY''" "Some ''ltree''" ltree_udts]
  by (simp add: ltree_udts_def isNumberType_def)

text \<open>
  Counterexample to C8 as stated: the underlying name is the empty string and the
  allow-list for strings holds the empty string. Every condition of the claim is met,
  and Phase 1 returns nothing: the guard \<open>udt && ...\<close> takes the empty name for absent.
\<close>

theorem empty_udt_name_not_string:
  "''jsonb'' \<noteq> ''boolean'' \<and> Some [] \<noteq> Some ''boolean'' \<and>
   \<not> isNumberType (Some ''jsonb'') \<and> \<not> isNumberType (Some []) \<and>
   ''jsonb'' \<notin> set (number empty_name_udts) \<and> [] \<notin> set (number empty_name_udts) \<and>
   [] \<in> set (string empty_name_udts) \<and>
   deduceType ''jsonb'' (Some []) empty_name_udts = None"
  by (subst deduceType.simps)
     (simp add: empty_name_udts_def isNumberType_def isStringType_def isKnownDateType_def
        udt_included_def)

section \<open>C10: the direction of an ordering\<close>

text \<open>
  C10. \<open>orderBy\<close> without a direction throws
  \<open>Invalid orderBy direction: "undefined".\<close> Whenever \<open>orderBy\<close> returns, the
  direction was given and is \<open>asc\<close> or \<open>desc\<close>, and the ordering stored is the columns
  with that very direction: the fallback \<open>|| "asc"\<close> never supplies it.
\<close>

theorem orderBy_direction_required:
  "SelectBuilder_orderBy b cols None =
     Inl (Error (''Invalid orderBy direction: '' @ [CHR 0x22] @ ''undefined'' @ [CHR 0x22] @ ''.'')) \<and>
   (\<forall>direction b'. SelectBuilder_orderBy b cols direction = Inr b' \<longrightarrow>
      (\<exists>d. direction = Some d \<and> (d = ''asc'' \<or> d = ''desc'') \<and>
           b' = b\<lparr>query := (query b)\<lparr>orderBy := Some \<lparr>ord_columns = cols, ord_direction = d\<rparr>\<rparr>\<rparr>))"
  by (auto simp: SelectBuilder_orderBy_def split: if_splits)

text \<open>Witness for C10: no direction, \<open>desc\<close>, and a direction that is neither.\<close>

theorem orderBy_direction_required_witness:
  "SelectBuilder_orderBy (SelectBuilder_new naming_transport users_table All) [''id''] None =
     Inl (Error (''Invalid orderBy direction: '' @ [CHR 0x22] @ ''undefined'' @ [CHR 0x22] @ ''.'')) \<and>
   SelectBuilder_orderBy (SelectBuilder_new naming_transport users_table All) [''id''] (Some ''desc'') =
     Inr ((SelectBuilder_new naming_transport users_table All)
            \<lparr>query := (query (SelectBuilder_new naming_transport users_table All))
               \<lparr>orderBy := Some \<lparr>ord_columns = [''id''], ord_direction = ''desc''\<rparr>\<rparr>\<rparr>) \<and>
   SelectBuilder_orderBy (SelectBuilder_new naming_transport users_table All) [''id'']
       (Some ''ascending'') =
     Inl (Error (''Invalid orderBy direction: '' @ [CHR 0x22] @ ''ascending'' @ [CHR 0x22] @ ''.''))"
  using orderBy_direction_required[of "SelectBuilder_new naming_transport users_table All" "[''id'']"]
  by (simp add: SelectBuilder_orderBy_def)

section \<open>C1: the where clause of a rendered select\<close>

text \<open>
  C1, at the chain \<open>select(["id"]).where("status", "=", "active").limit(10)\<close> on the
  table \<open>users\<close>, for any formatter: the text has the quoted column, the operator, the
  formatted value and \<open>limit 10\<close>, and neither \<open>offset\<close> nor \<open>order by\<close>; before the
  condition it has \<open>true\<close>, the printed boolean, where the keyword \<open>where\<close> belongs.
\<close>

theorem select_prints_true_for_where:
  "SqlGenerator_select format
     (query (SelectBuilder_limit
        (SelectBuilder_where (SelectBuilder_new transport users_table (Cols [''id'']))
           ''status'' (JStr ''='') (JStr ''active''))
        10)) =
   [CHR 0x0A] @ ''      select '' @ fmt_name format ''id'' @
   [CHR 0x0A] @ ''      from users'' @
   [CHR 0x0A] @ ''      true '' @ fmt_name format ''status'' @ '' ='' @
                  fmt_value format (JStr ''active'') @
   [CHR 0x0A] @ ''      limit '' @ fmt_number format 10 @
   [CHR 0x0A] @ ''      '' @
   [CHR 0x0A] @ ''      '' @
   [CHR 0x0A] @ ''    ''"
  by (simp add: SqlGenerator_select_def SelectBuilder_limit_def SelectBuilder_where_def
      SelectBuilder_new_def where'_def isBinaryOperator_def binaryOperators_def users_table_def)

section \<open>C5: what reaches the text unquoted\<close>

text \<open>
  C5, at a query whose table name is \<open>users; drop table users\<close>, for any formatter: the
  selected column goes through \<open>format.name\<close>, the table name is copied as it is.
\<close>

theorem select_table_not_quoted:
  "SqlGenerator_select format
     \<lparr>table = ''users; drop table users'', limit = None, offset = None, conditions = None,
      selected = Some [''id''], orderBy = None\<rparr> =
   [CHR 0x0A] @ ''      select '' @ fmt_name format ''id'' @
   [CHR 0x0A] @ ''      from users; drop table users'' @
   [CHR 0x0A] @ ''      undefined '' @
   [CHR 0x0A] @ ''      '' @
   [CHR 0x0A] @ ''      '' @
   [CHR 0x0A] @ ''      '' @
   [CHR 0x0A] @ ''    ''"
  by (simp add: SqlGenerator_select_def)

section \<open>C4: what the delete builder executes\<close>

text \<open>
  C4. \<open>execute\<close> of a delete builder hands the command to the transport's \<open>update\<close>;
  on a transport whose operations answer with their names, a delete chain answers
  \<open>update\<close>. The update and insert builders call their own operation.
\<close>

theorem delete_execute_calls_update:
  "DeleteBuilder_execute b = tupdate (del_transport b) (del_command b) \<and>
   DeleteBuilder_execute
     (DeleteBuilder_where (DeleteBuilder_new naming_transport users_table)
        ''id'' (JStr ''='') (JNum 1)) = ''update'' \<and>
   UpdateBuilder_execute ub = tupdate (upd_transport ub) (upd_command ub) \<and>
   InsertBuilder_execute ib = tinsert (ins_transport ib) (ins_command ib)"
  by (simp add: DeleteBuilder_execute_def DeleteBuilder_where_def DeleteBuilder_new_def
      naming_transport_def UpdateBuilder_execute_def InsertBuilder_execute_def)

end
